theory Spec2Isabelle
  imports Main
begin

section \<open>The SEO analyzer's scoring pass\<close>

text \<open>
  This theory embeds \<^verbatim>\<open>SEOAnalyzer.analyzeSEO\<close> of \<^verbatim>\<open>script.js\<close> (the version that keeps
  per-category scores) and checks the properties the specification states about it.

  The method reads a \<^verbatim>\<open>metaTags\<close> object built by \<^verbatim>\<open>parseMetaTags\<close>, runs eight
  consecutive blocks, each of which pushes items and bumps counters held in local
  variables, and returns an object built from those variables.  The embedding keeps this
  shape: the local variables are a record that every block takes and returns.
\<close>

subsection \<open>Data\<close>

text \<open>
  A parsed JSON-LD block.  \<^verbatim>\<open>analyzeSEO\<close> reads only the length of the array holding them.
\<close>

datatype json =
    JNull
  | JBool bool
  | JNumber int
  | JString string
  | JArray "json list"
  | JObject "(string \<times> json) list"

text \<open>
  The object literal of \<^verbatim>\<open>parseMetaTags\<close>.  Every field but the last is a string, since
  each is \<^verbatim>\<open>... || ''\<close>; a missing tag is the empty string.  The field \<^verbatim>\<open>keywords\<close> is
  written \<open>keywords_\<close> here.  A string is the list of its code units, which is what
  \<^verbatim>\<open>.length\<close> counts; \<^verbatim>\<open>analyzeSEO\<close> tests strings for emptiness and length only, and
  copies \<^verbatim>\<open>language\<close> into a description.
\<close>

record metaTags =
  title :: string
  description :: string
  keywords_ :: string
  canonical :: string
  robots :: string
  viewport :: string
  charset :: string
  ogTitle :: string
  ogDescription :: string
  ogImage :: string
  ogUrl :: string
  ogType :: string
  ogSiteName :: string
  twitterCard :: string
  twitterTitle :: string
  twitterDescription :: string
  twitterImage :: string
  twitterSite :: string
  author :: string
  language :: string
  structuredData :: "json list"

text \<open>The three values the \<^verbatim>\<open>type\<close> key of an item takes.\<close>

datatype item_type = Passed | Warning | Error

text \<open>
  An item \<^verbatim>\<open>{ type, title, description }\<close>.  Its keys carry the prefix \<open>item_\<close>, the
  names \<open>title\<close> and \<open>description\<close> being fields of \<open>metaTags\<close> already.
\<close>

record item =
  item_type :: item_type
  item_title :: string
  item_description :: string

text \<open>
  One entry \<^verbatim>\<open>{ score, maxScore, items }\<close> of \<^verbatim>\<open>categoryScores\<close>; \<open>cat_score\<close> and
  \<open>cat_items\<close> are its keys \<^verbatim>\<open>score\<close> and \<^verbatim>\<open>items\<close>.
\<close>

record categoryScore =
  cat_score :: nat
  maxScore :: nat
  cat_items :: "item list"

record categoryScores =
  basicSeo :: categoryScore
  socialMedia :: categoryScore
  technicalSeo :: categoryScore
  contentQuality :: categoryScore

text \<open>
  The local variables of \<^verbatim>\<open>analyzeSEO\<close>, under their own names.  All numbers are sums of
  the non-negative integer literals of the source, far below \<open>2^53\<close>, so the doubles of
  JavaScript behave as natural numbers on them.
\<close>

record vars =
  analysis :: "item list"
  score :: nat
  passed :: nat
  warnings :: nat
  errors :: nat
  categoryScores :: categoryScores

text \<open>
  The returned object \<^verbatim>\<open>{ score, passed, warnings, errors, items, categoryScores }\<close>, its
  keys prefixed with \<open>report_\<close>.
\<close>

record report =
  report_score :: nat
  report_passed :: nat
  report_warnings :: nat
  report_errors :: nat
  report_items :: "item list"
  report_categoryScores :: categoryScores

subsection \<open>Primitives of the language\<close>

text \<open>A string in a condition is true exactly when it is not empty.\<close>

definition truthy :: "string \<Rightarrow> bool" where
  "truthy s = (s \<noteq> [])"

text \<open>
  The decimal digits a template literal produces for a non-negative integer (below
  \<open>10^21\<close>, where JavaScript switches to exponent notation; no string is that long).
\<close>

fun number_toString :: "nat \<Rightarrow> string" where
  "number_toString n =
     (if n < 10 then [''0123456789'' ! n]
      else number_toString (n div 10) @ [''0123456789'' ! (n mod 10)])"

declare number_toString.simps [simp del]

text \<open>\<^verbatim>\<open>c.items.push(item)\<close> and \<^verbatim>\<open>c.score += n\<close> on one category entry.\<close>

definition items_push :: "item \<Rightarrow> categoryScore \<Rightarrow> categoryScore" where
  "items_push it c = c\<lparr>cat_items := cat_items c @ [it]\<rparr>"

definition score_add :: "nat \<Rightarrow> categoryScore \<Rightarrow> categoryScore" where
  "score_add n c = c\<lparr>cat_score := cat_score c + n\<rparr>"

subsection \<open>The initial values\<close>

definition categoryScores_init :: categoryScores where
  "categoryScores_init =
     \<lparr>basicSeo = \<lparr>cat_score = 0, maxScore = 30, cat_items = []\<rparr>,
      socialMedia = \<lparr>cat_score = 0, maxScore = 25, cat_items = []\<rparr>,
      technicalSeo = \<lparr>cat_score = 0, maxScore = 30, cat_items = []\<rparr>,
      contentQuality = \<lparr>cat_score = 0, maxScore = 15, cat_items = []\<rparr>\<rparr>"

definition vars_init :: vars where
  "vars_init =
     \<lparr>analysis = [], score = 0, passed = 0, warnings = 0, errors = 0,
      categoryScores = categoryScores_init\<rparr>"

subsection \<open>The eight blocks\<close>

text \<open>
  Each block is written statement by statement.  The title and the description blocks
  have an inner \<^verbatim>\<open>else if (... .length > 0)\<close> without a final \<^verbatim>\<open>else\<close>: when neither
  inner condition holds nothing is pushed, which is the last \<open>else v\<close> below.
\<close>

definition title_analysis :: "metaTags \<Rightarrow> vars \<Rightarrow> vars" where
  "title_analysis metaTags v =
     (if truthy (title metaTags) then
        (if length (title metaTags) \<ge> 30 \<and> length (title metaTags) \<le> 60 then
           (let it = \<lparr>item_type = Passed,
                      item_title = ''Title Tag Length'',
                      item_description = ''Perfect! Title is ''
                        @ number_toString (length (title metaTags))
                        @ '' characters (30-60 recommended).''\<rparr>;
                v = v\<lparr>analysis := analysis v @ [it]\<rparr>;
                v = v\<lparr>categoryScores := (categoryScores v)
                       \<lparr>basicSeo := items_push it (basicSeo (categoryScores v))\<rparr>\<rparr>;
                v = v\<lparr>categoryScores := (categoryScores v)
                       \<lparr>basicSeo := score_add 15 (basicSeo (categoryScores v))\<rparr>\<rparr>;
                v = v\<lparr>score := score v + 15\<rparr>
            in v\<lparr>passed := passed v + 1\<rparr>)
         else if length (title metaTags) > 0 then
           (let it = \<lparr>item_type = Warning,
                      item_title = ''Title Tag Length'',
                      item_description = ''Title is ''
                        @ number_toString (length (title metaTags))
                        @ '' characters. Recommended: 30-60 characters.''\<rparr>;
                v = v\<lparr>analysis := analysis v @ [it]\<rparr>;
                v = v\<lparr>categoryScores := (categoryScores v)
                       \<lparr>basicSeo := items_push it (basicSeo (categoryScores v))\<rparr>\<rparr>;
                v = v\<lparr>categoryScores := (categoryScores v)
                       \<lparr>basicSeo := score_add 8 (basicSeo (categoryScores v))\<rparr>\<rparr>;
                v = v\<lparr>score := score v + 8\<rparr>
            in v\<lparr>warnings := warnings v + 1\<rparr>)
         else v)
      else
        (let it = \<lparr>item_type = Error,
                   item_title = ''Missing Title Tag'',
                   item_description = ''Title tag is missing. This is crucial for SEO.''\<rparr>;
             v = v\<lparr>analysis := analysis v @ [it]\<rparr>;
             v = v\<lparr>categoryScores := (categoryScores v)
                    \<lparr>basicSeo := items_push it (basicSeo (categoryScores v))\<rparr>\<rparr>
         in v\<lparr>errors := errors v + 1\<rparr>))"

definition description_analysis :: "metaTags \<Rightarrow> vars \<Rightarrow> vars" where
  "description_analysis metaTags v =
     (if truthy (description metaTags) then
        (if length (description metaTags) \<ge> 120 \<and> length (description metaTags) \<le> 160 then
           (let it = \<lparr>item_type = Passed,
                      item_title = ''Meta Description Length'',
                      item_description = ''Perfect! Description is ''
                        @ number_toString (length (description metaTags))
                        @ '' characters (120-160 recommended).''\<rparr>;
                v = v\<lparr>analysis := analysis v @ [it]\<rparr>;
                v = v\<lparr>categoryScores := (categoryScores v)
                       \<lparr>basicSeo := items_push it (basicSeo (categoryScores v))\<rparr>\<rparr>;
                v = v\<lparr>categoryScores := (categoryScores v)
                       \<lparr>basicSeo := score_add 15 (basicSeo (categoryScores v))\<rparr>\<rparr>;
                v = v\<lparr>score := score v + 15\<rparr>
            in v\<lparr>passed := passed v + 1\<rparr>)
         else if length (description metaTags) > 0 then
           (let it = \<lparr>item_type = Warning,
                      item_title = ''Meta Description Length'',
                      item_description = ''Description is ''
                        @ number_toString (length (description metaTags))
                        @ '' characters. Recommended: 120-160 characters.''\<rparr>;
                v = v\<lparr>analysis := analysis v @ [it]\<rparr>;
                v = v\<lparr>categoryScores := (categoryScores v)
                       \<lparr>basicSeo := items_push it (basicSeo (categoryScores v))\<rparr>\<rparr>;
                v = v\<lparr>categoryScores := (categoryScores v)
                       \<lparr>basicSeo := score_add 8 (basicSeo (categoryScores v))\<rparr>\<rparr>;
                v = v\<lparr>score := score v + 8\<rparr>
            in v\<lparr>warnings := warnings v + 1\<rparr>)
         else v)
      else
        (let it = \<lparr>item_type = Error,
                   item_title = ''Missing Meta Description'',
                   item_description =
                     ''Meta description is missing. This affects click-through rates.''\<rparr>;
             v = v\<lparr>analysis := analysis v @ [it]\<rparr>;
             v = v\<lparr>categoryScores := (categoryScores v)
                    \<lparr>basicSeo := items_push it (basicSeo (categoryScores v))\<rparr>\<rparr>
         in v\<lparr>errors := errors v + 1\<rparr>))"

definition open_graph_analysis :: "metaTags \<Rightarrow> vars \<Rightarrow> vars" where
  "open_graph_analysis metaTags v =
     (if truthy (ogTitle metaTags) \<and> truthy (ogDescription metaTags) then
        (let it = \<lparr>item_type = Passed,
                   item_title = ''Open Graph Tags'',
                   item_description =
                     ''Open Graph title and description are present for social media sharing.''\<rparr>;
             v = v\<lparr>analysis := analysis v @ [it]\<rparr>;
             v = v\<lparr>categoryScores := (categoryScores v)
                    \<lparr>socialMedia := items_push it (socialMedia (categoryScores v))\<rparr>\<rparr>;
             v = v\<lparr>categoryScores := (categoryScores v)
                    \<lparr>socialMedia := score_add 15 (socialMedia (categoryScores v))\<rparr>\<rparr>;
             v = v\<lparr>score := score v + 10\<rparr>
         in v\<lparr>passed := passed v + 1\<rparr>)
      else
        (let it = \<lparr>item_type = Warning,
                   item_title = ''Open Graph Tags'',
                   item_description =
                     ''Missing Open Graph tags. These improve social media sharing appearance.''\<rparr>;
             v = v\<lparr>analysis := analysis v @ [it]\<rparr>;
             v = v\<lparr>categoryScores := (categoryScores v)
                    \<lparr>socialMedia := items_push it (socialMedia (categoryScores v))\<rparr>\<rparr>
         in v\<lparr>warnings := warnings v + 1\<rparr>))"

definition twitter_card_analysis :: "metaTags \<Rightarrow> vars \<Rightarrow> vars" where
  "twitter_card_analysis metaTags v =
     (if truthy (twitterCard metaTags) then
        (let it = \<lparr>item_type = Passed,
                   item_title = ''Twitter Card'',
                   item_description =
                     ''Twitter Card meta tag is present.''\<rparr>;
             v = v\<lparr>analysis := analysis v @ [it]\<rparr>;
             v = v\<lparr>categoryScores := (categoryScores v)
                    \<lparr>socialMedia := items_push it (socialMedia (categoryScores v))\<rparr>\<rparr>;
             v = v\<lparr>categoryScores := (categoryScores v)
                    \<lparr>socialMedia := score_add 10 (socialMedia (categoryScores v))\<rparr>\<rparr>;
             v = v\<lparr>score := score v + 5\<rparr>
         in v\<lparr>passed := passed v + 1\<rparr>)
      else
        (let it = \<lparr>item_type = Warning,
                   item_title = ''Twitter Card'',
                   item_description =
                     ''Twitter Card meta tag is missing.''\<rparr>;
             v = v\<lparr>analysis := analysis v @ [it]\<rparr>;
             v = v\<lparr>categoryScores := (categoryScores v)
                    \<lparr>socialMedia := items_push it (socialMedia (categoryScores v))\<rparr>\<rparr>
         in v\<lparr>warnings := warnings v + 1\<rparr>))"

definition canonical_analysis :: "metaTags \<Rightarrow> vars \<Rightarrow> vars" where
  "canonical_analysis metaTags v =
     (if truthy (canonical metaTags) then
        (let it = \<lparr>item_type = Passed,
                   item_title = ''Canonical URL'',
                   item_description =
                     ''Canonical URL is specified, helping prevent duplicate content issues.''\<rparr>;
             v = v\<lparr>analysis := analysis v @ [it]\<rparr>;
             v = v\<lparr>categoryScores := (categoryScores v)
                    \<lparr>technicalSeo := items_push it (technicalSeo (categoryScores v))\<rparr>\<rparr>;
             v = v\<lparr>categoryScores := (categoryScores v)
                    \<lparr>technicalSeo := score_add 10 (technicalSeo (categoryScores v))\<rparr>\<rparr>;
             v = v\<lparr>score := score v + 10\<rparr>
         in v\<lparr>passed := passed v + 1\<rparr>)
      else
        (let it = \<lparr>item_type = Warning,
                   item_title = ''Canonical URL'',
                   item_description =
                     ''Canonical URL is missing. Consider adding it to prevent duplicate content issues.''\<rparr>;
             v = v\<lparr>analysis := analysis v @ [it]\<rparr>;
             v = v\<lparr>categoryScores := (categoryScores v)
                    \<lparr>technicalSeo := items_push it (technicalSeo (categoryScores v))\<rparr>\<rparr>
         in v\<lparr>warnings := warnings v + 1\<rparr>))"

definition viewport_analysis :: "metaTags \<Rightarrow> vars \<Rightarrow> vars" where
  "viewport_analysis metaTags v =
     (if truthy (viewport metaTags) then
        (let it = \<lparr>item_type = Passed,
                   item_title = ''Mobile Viewport'',
                   item_description =
                     ''Viewport meta tag is present for mobile optimization.''\<rparr>;
             v = v\<lparr>analysis := analysis v @ [it]\<rparr>;
             v = v\<lparr>categoryScores := (categoryScores v)
                    \<lparr>technicalSeo := items_push it (technicalSeo (categoryScores v))\<rparr>\<rparr>;
             v = v\<lparr>categoryScores := (categoryScores v)
                    \<lparr>technicalSeo := score_add 10 (technicalSeo (categoryScores v))\<rparr>\<rparr>;
             v = v\<lparr>score := score v + 5\<rparr>
         in v\<lparr>passed := passed v + 1\<rparr>)
      else
        (let it = \<lparr>item_type = Error,
                   item_title = ''Missing Viewport Tag'',
                   item_description =
                     ''Viewport meta tag is missing. This affects mobile usability.''\<rparr>;
             v = v\<lparr>analysis := analysis v @ [it]\<rparr>;
             v = v\<lparr>categoryScores := (categoryScores v)
                    \<lparr>technicalSeo := items_push it (technicalSeo (categoryScores v))\<rparr>\<rparr>
         in v\<lparr>errors := errors v + 1\<rparr>))"

definition language_analysis :: "metaTags \<Rightarrow> vars \<Rightarrow> vars" where
  "language_analysis metaTags v =
     (if truthy (language metaTags) then
        (let it = \<lparr>item_type = Passed,
                   item_title = ''Language Declaration'',
                   item_description =
                     ''Language is declared as '' @ [CHR 0x22] @ language metaTags
                       @ [CHR 0x22] @ ''.''\<rparr>;
             v = v\<lparr>analysis := analysis v @ [it]\<rparr>;
             v = v\<lparr>categoryScores := (categoryScores v)
                    \<lparr>contentQuality := items_push it (contentQuality (categoryScores v))\<rparr>\<rparr>;
             v = v\<lparr>categoryScores := (categoryScores v)
                    \<lparr>contentQuality := score_add 5 (contentQuality (categoryScores v))\<rparr>\<rparr>;
             v = v\<lparr>score := score v + 5\<rparr>
         in v\<lparr>passed := passed v + 1\<rparr>)
      else
        (let it = \<lparr>item_type = Warning,
                   item_title = ''Language Declaration'',
                   item_description =
                     ''HTML lang attribute is missing. This helps search engines understand content language.''\<rparr>;
             v = v\<lparr>analysis := analysis v @ [it]\<rparr>;
             v = v\<lparr>categoryScores := (categoryScores v)
                    \<lparr>contentQuality := items_push it (contentQuality (categoryScores v))\<rparr>\<rparr>
         in v\<lparr>warnings := warnings v + 1\<rparr>))"

definition structured_data_analysis :: "metaTags \<Rightarrow> vars \<Rightarrow> vars" where
  "structured_data_analysis metaTags v =
     (if length (structuredData metaTags) > 0 then
        (let it = \<lparr>item_type = Passed,
                   item_title = ''Structured Data'',
                   item_description =
                     ''Found '' @ number_toString (length (structuredData metaTags))
                       @ '' structured data block(s). Great for rich snippets!''\<rparr>;
             v = v\<lparr>analysis := analysis v @ [it]\<rparr>;
             v = v\<lparr>categoryScores := (categoryScores v)
                    \<lparr>technicalSeo := items_push it (technicalSeo (categoryScores v))\<rparr>\<rparr>;
             v = v\<lparr>categoryScores := (categoryScores v)
                    \<lparr>technicalSeo := score_add 10 (technicalSeo (categoryScores v))\<rparr>\<rparr>;
             v = v\<lparr>score := score v + 10\<rparr>
         in v\<lparr>passed := passed v + 1\<rparr>)
      else
        (let it = \<lparr>item_type = Warning,
                   item_title = ''Structured Data'',
                   item_description =
                     ''No structured data found. Consider adding Schema.org markup for rich snippets.''\<rparr>;
             v = v\<lparr>analysis := analysis v @ [it]\<rparr>;
             v = v\<lparr>categoryScores := (categoryScores v)
                    \<lparr>technicalSeo := items_push it (technicalSeo (categoryScores v))\<rparr>\<rparr>
         in v\<lparr>warnings := warnings v + 1\<rparr>))"

subsection \<open>The method\<close>

text \<open>
  The blocks run in the order of the source; the returned object copies the local
  variables, with \<^verbatim>\<open>Math.min(100, score)\<close> as its score.  The parameter \<^verbatim>\<open>url\<close> is never
  read.
\<close>

definition run_blocks :: "metaTags \<Rightarrow> vars" where
  "run_blocks metaTags =
     (let v = vars_init;
          v = title_analysis metaTags v;
          v = description_analysis metaTags v;
          v = open_graph_analysis metaTags v;
          v = twitter_card_analysis metaTags v;
          v = canonical_analysis metaTags v;
          v = viewport_analysis metaTags v;
          v = language_analysis metaTags v;
          v = structured_data_analysis metaTags v
      in v)"

definition analyzeSEO :: "metaTags \<Rightarrow> string \<Rightarrow> report" where
  "analyzeSEO metaTags url =
     (let v = run_blocks metaTags
      in \<lparr>report_score = min 100 (score v),
          report_passed = passed v,
          report_warnings = warnings v,
          report_errors = errors v,
          report_items = analysis v,
          report_categoryScores = categoryScores v\<rparr>)"

subsection \<open>The rule table of the specification\<close>

text \<open>
  The specification numbers the eight rules and gives, for each rule and each kind of
  finding, a direct score (added to the overall score) and category points.  The items of
  the source do not name their rule; \<open>rule_of_item\<close> recovers it from the title, each block
  using titles no other block uses.
\<close>

datatype rule =
    TitleLength
  | DescriptionLength
  | OpenGraph
  | TwitterCard
  | CanonicalUrl
  | Viewport
  | LanguageDeclaration
  | StructuredData

definition rule_order :: "rule list" where
  "rule_order =
     [TitleLength, DescriptionLength, OpenGraph, TwitterCard,
      CanonicalUrl, Viewport, LanguageDeclaration, StructuredData]"

definition rule_of_item :: "item \<Rightarrow> rule option" where
  "rule_of_item it =
     (let t = item_title it in
      if t = ''Title Tag Length'' \<or> t = ''Missing Title Tag'' then Some TitleLength
      else if t = ''Meta Description Length'' \<or> t = ''Missing Meta Description''
        then Some DescriptionLength
      else if t = ''Open Graph Tags'' then Some OpenGraph
      else if t = ''Twitter Card'' then Some TwitterCard
      else if t = ''Canonical URL'' then Some CanonicalUrl
      else if t = ''Mobile Viewport'' \<or> t = ''Missing Viewport Tag'' then Some Viewport
      else if t = ''Language Declaration'' then Some LanguageDeclaration
      else if t = ''Structured Data'' then Some StructuredData
      else None)"

text \<open>
  The column ``Direct score'' of the specification's table, following its words: a kind
  the table does not list for a rule scores nothing.
\<close>

fun spec_direct_score :: "rule \<Rightarrow> item_type \<Rightarrow> nat" where
  "spec_direct_score TitleLength Passed = 15"
| "spec_direct_score TitleLength Warning = 8"
| "spec_direct_score DescriptionLength Passed = 15"
| "spec_direct_score DescriptionLength Warning = 8"
| "spec_direct_score OpenGraph Passed = 10"
| "spec_direct_score TwitterCard Passed = 5"
| "spec_direct_score CanonicalUrl Passed = 10"
| "spec_direct_score Viewport Passed = 5"
| "spec_direct_score LanguageDeclaration Passed = 5"
| "spec_direct_score StructuredData Passed = 10"
| "spec_direct_score _ _ = 0"

text \<open>
  The column ``Condition \<open>\<rightarrow>\<close> kind'' of the same table, following its words; an absent
  field is the empty string.
\<close>

fun spec_kind :: "rule \<Rightarrow> metaTags \<Rightarrow> item_type" where
  "spec_kind TitleLength t =
     (if title t = [] then Error
      else if 30 \<le> length (title t) \<and> length (title t) \<le> 60 then Passed
      else Warning)"
| "spec_kind DescriptionLength t =
     (if description t = [] then Error
      else if 120 \<le> length (description t) \<and> length (description t) \<le> 160 then Passed
      else Warning)"
| "spec_kind OpenGraph t =
     (if ogTitle t \<noteq> [] \<and> ogDescription t \<noteq> [] then Passed else Warning)"
| "spec_kind TwitterCard t = (if twitterCard t \<noteq> [] then Passed else Warning)"
| "spec_kind CanonicalUrl t = (if canonical t \<noteq> [] then Passed else Warning)"
| "spec_kind Viewport t = (if viewport t \<noteq> [] then Passed else Error)"
| "spec_kind LanguageDeclaration t = (if language t \<noteq> [] then Passed else Warning)"
| "spec_kind StructuredData t = (if structuredData t \<noteq> [] then Passed else Warning)"

declare spec_kind.simps [simp del]

text \<open>The column ``Category / category points'' of the table, following its words.\<close>

fun spec_category_points :: "rule \<Rightarrow> item_type \<Rightarrow> nat" where
  "spec_category_points TitleLength Passed = 15"
| "spec_category_points TitleLength Warning = 8"
| "spec_category_points DescriptionLength Passed = 15"
| "spec_category_points DescriptionLength Warning = 8"
| "spec_category_points OpenGraph Passed = 15"
| "spec_category_points TwitterCard Passed = 10"
| "spec_category_points CanonicalUrl Passed = 10"
| "spec_category_points Viewport Passed = 10"
| "spec_category_points LanguageDeclaration Passed = 5"
| "spec_category_points StructuredData Passed = 10"
| "spec_category_points _ _ = 0"

definition direct_score_of_item :: "item \<Rightarrow> nat" where
  "direct_score_of_item it =
     (case rule_of_item it of
        None \<Rightarrow> 0
      | Some r \<Rightarrow> spec_direct_score r (item_type it))"

subsection \<open>What one block adds\<close>

text \<open>
  The points a block adds to the overall score and to the category scores, read off the
  variables before and after it.  No block ever lowers a score, so the differences are
  exact.
\<close>

definition category_total :: "vars \<Rightarrow> nat" where
  "category_total v =
     cat_score (basicSeo (categoryScores v)) + cat_score (socialMedia (categoryScores v))
       + cat_score (technicalSeo (categoryScores v))
       + cat_score (contentQuality (categoryScores v))"

definition direct_points :: "(metaTags \<Rightarrow> vars \<Rightarrow> vars) \<Rightarrow> metaTags \<Rightarrow> vars \<Rightarrow> nat" where
  "direct_points block metaTags v = score (block metaTags v) - score v"

definition category_points :: "(metaTags \<Rightarrow> vars \<Rightarrow> vars) \<Rightarrow> metaTags \<Rightarrow> vars \<Rightarrow> nat" where
  "category_points block metaTags v =
     category_total (block metaTags v) - category_total v"

subsection \<open>The inputs of the specification's scenarios\<close>

definition tags_empty :: metaTags where
  "tags_empty =
     \<lparr>title = '''', description = '''', keywords_ = '''', canonical = '''', robots = '''',
      viewport = '''', charset = '''', ogTitle = '''', ogDescription = '''', ogImage = '''',
      ogUrl = '''', ogType = '''', ogSiteName = '''', twitterCard = '''', twitterTitle = '''',
      twitterDescription = '''', twitterImage = '''', twitterSite = '''', author = '''',
      language = '''', structuredData = []\<rparr>"

definition tags_viewport_only :: metaTags where
  "tags_viewport_only = tags_empty\<lparr>viewport := ''w''\<rparr>"

definition tags_all_present :: metaTags where
  "tags_all_present =
     tags_empty
       \<lparr>title := replicate 45 (CHR ''A''),
        description := replicate 140 (CHR ''B''),
        ogTitle := ''x'',
        ogDescription := ''y'',
        canonical := ''https://e.com'',
        viewport := ''width=device-width'',
        language := ''en'',
        twitterCard := ''summary'',
        structuredData := [JObject []]\<rparr>"

definition tags_title_of_length :: "nat \<Rightarrow> metaTags" where
  "tags_title_of_length n = tags_empty\<lparr>title := replicate n (CHR ''t'')\<rparr>"

definition tags_description_of_length :: "nat \<Rightarrow> metaTags" where
  "tags_description_of_length n = tags_empty\<lparr>description := replicate n (CHR ''d'')\<rparr>"

section \<open>Each block against the rule table\<close>

text \<open>
  Every block pushes exactly one item, of its own rule and of the kind the table gives,
  and adds the table's points.  The branch of the title and description blocks that
  pushes nothing needs a non-empty string of length zero, so it is never taken.
\<close>

lemmas block_defs =
  title_analysis_def description_analysis_def open_graph_analysis_def
  twitter_card_analysis_def canonical_analysis_def viewport_analysis_def
  language_analysis_def structured_data_analysis_def
  Let_def truthy_def items_push_def score_add_def

lemma title_items:
  "length (analysis (title_analysis m v)) = Suc (length (analysis v))"
  "map rule_of_item (analysis (title_analysis m v)) = map rule_of_item (analysis v) @ [Some TitleLength]"
  "map item_type (analysis (title_analysis m v)) = map item_type (analysis v) @ [spec_kind TitleLength m]"
  by (simp_all add: block_defs rule_of_item_def spec_kind.simps)

lemma title_counters:
  "score (title_analysis m v) = score v + spec_direct_score TitleLength (spec_kind TitleLength m)"
  "passed (title_analysis m v) = passed v + (if spec_kind TitleLength m = Passed then 1 else 0)"
  "warnings (title_analysis m v) = warnings v + (if spec_kind TitleLength m = Warning then 1 else 0)"
  "errors (title_analysis m v) = errors v + (if spec_kind TitleLength m = Error then 1 else 0)"
  by (simp_all add: block_defs spec_kind.simps)

lemma title_categories:
  "cat_score (basicSeo (categoryScores (title_analysis m v)))
     = cat_score (basicSeo (categoryScores v)) + spec_category_points TitleLength (spec_kind TitleLength m)"
  "maxScore (basicSeo (categoryScores (title_analysis m v))) = maxScore (basicSeo (categoryScores v))"
  "socialMedia (categoryScores (title_analysis m v)) = socialMedia (categoryScores v)"
  "technicalSeo (categoryScores (title_analysis m v)) = technicalSeo (categoryScores v)"
  "contentQuality (categoryScores (title_analysis m v)) = contentQuality (categoryScores v)"
  by (simp_all add: block_defs spec_kind.simps)

lemma title_counts_inv:
  "passed v + warnings v + errors v = length (analysis v) \<Longrightarrow>
   passed (title_analysis m v) + warnings (title_analysis m v) + errors (title_analysis m v) = length (analysis (title_analysis m v))"
  by (cases "spec_kind TitleLength m") (simp_all add: title_items title_counters)

lemma title_score_inv:
  "score v = sum_list (map direct_score_of_item (analysis v)) \<Longrightarrow>
   score (title_analysis m v) = sum_list (map direct_score_of_item (analysis (title_analysis m v)))"
  by (simp add: block_defs rule_of_item_def direct_score_of_item_def)

lemma description_items:
  "length (analysis (description_analysis m v)) = Suc (length (analysis v))"
  "map rule_of_item (analysis (description_analysis m v)) = map rule_of_item (analysis v) @ [Some DescriptionLength]"
  "map item_type (analysis (description_analysis m v)) = map item_type (analysis v) @ [spec_kind DescriptionLength m]"
  by (simp_all add: block_defs rule_of_item_def spec_kind.simps)

lemma description_counters:
  "score (description_analysis m v) = score v + spec_direct_score DescriptionLength (spec_kind DescriptionLength m)"
  "passed (description_analysis m v) = passed v + (if spec_kind DescriptionLength m = Passed then 1 else 0)"
  "warnings (description_analysis m v) = warnings v + (if spec_kind DescriptionLength m = Warning then 1 else 0)"
  "errors (description_analysis m v) = errors v + (if spec_kind DescriptionLength m = Error then 1 else 0)"
  by (simp_all add: block_defs spec_kind.simps)

lemma description_categories:
  "cat_score (basicSeo (categoryScores (description_analysis m v)))
     = cat_score (basicSeo (categoryScores v)) + spec_category_points DescriptionLength (spec_kind DescriptionLength m)"
  "maxScore (basicSeo (categoryScores (description_analysis m v))) = maxScore (basicSeo (categoryScores v))"
  "socialMedia (categoryScores (description_analysis m v)) = socialMedia (categoryScores v)"
  "technicalSeo (categoryScores (description_analysis m v)) = technicalSeo (categoryScores v)"
  "contentQuality (categoryScores (description_analysis m v)) = contentQuality (categoryScores v)"
  by (simp_all add: block_defs spec_kind.simps)

lemma description_counts_inv:
  "passed v + warnings v + errors v = length (analysis v) \<Longrightarrow>
   passed (description_analysis m v) + warnings (description_analysis m v) + errors (description_analysis m v) = length (analysis (description_analysis m v))"
  by (cases "spec_kind DescriptionLength m") (simp_all add: description_items description_counters)

lemma description_score_inv:
  "score v = sum_list (map direct_score_of_item (analysis v)) \<Longrightarrow>
   score (description_analysis m v) = sum_list (map direct_score_of_item (analysis (description_analysis m v)))"
  by (simp add: block_defs rule_of_item_def direct_score_of_item_def)

lemma open_graph_items:
  "length (analysis (open_graph_analysis m v)) = Suc (length (analysis v))"
  "map rule_of_item (analysis (open_graph_analysis m v)) = map rule_of_item (analysis v) @ [Some OpenGraph]"
  "map item_type (analysis (open_graph_analysis m v)) = map item_type (analysis v) @ [spec_kind OpenGraph m]"
  by (simp_all add: block_defs rule_of_item_def spec_kind.simps)

lemma open_graph_counters:
  "score (open_graph_analysis m v) = score v + spec_direct_score OpenGraph (spec_kind OpenGraph m)"
  "passed (open_graph_analysis m v) = passed v + (if spec_kind OpenGraph m = Passed then 1 else 0)"
  "warnings (open_graph_analysis m v) = warnings v + (if spec_kind OpenGraph m = Warning then 1 else 0)"
  "errors (open_graph_analysis m v) = errors v + (if spec_kind OpenGraph m = Error then 1 else 0)"
  by (simp_all add: block_defs spec_kind.simps)

lemma open_graph_categories:
  "cat_score (socialMedia (categoryScores (open_graph_analysis m v)))
     = cat_score (socialMedia (categoryScores v)) + spec_category_points OpenGraph (spec_kind OpenGraph m)"
  "maxScore (socialMedia (categoryScores (open_graph_analysis m v))) = maxScore (socialMedia (categoryScores v))"
  "basicSeo (categoryScores (open_graph_analysis m v)) = basicSeo (categoryScores v)"
  "technicalSeo (categoryScores (open_graph_analysis m v)) = technicalSeo (categoryScores v)"
  "contentQuality (categoryScores (open_graph_analysis m v)) = contentQuality (categoryScores v)"
  by (simp_all add: block_defs spec_kind.simps)

lemma open_graph_counts_inv:
  "passed v + warnings v + errors v = length (analysis v) \<Longrightarrow>
   passed (open_graph_analysis m v) + warnings (open_graph_analysis m v) + errors (open_graph_analysis m v) = length (analysis (open_graph_analysis m v))"
  by (cases "spec_kind OpenGraph m") (simp_all add: open_graph_items open_graph_counters)

lemma open_graph_score_inv:
  "score v = sum_list (map direct_score_of_item (analysis v)) \<Longrightarrow>
   score (open_graph_analysis m v) = sum_list (map direct_score_of_item (analysis (open_graph_analysis m v)))"
  by (simp add: block_defs rule_of_item_def direct_score_of_item_def)

lemma twitter_card_items:
  "length (analysis (twitter_card_analysis m v)) = Suc (length (analysis v))"
  "map rule_of_item (analysis (twitter_card_analysis m v)) = map rule_of_item (analysis v) @ [Some TwitterCard]"
  "map item_type (analysis (twitter_card_analysis m v)) = map item_type (analysis v) @ [spec_kind TwitterCard m]"
  by (simp_all add: block_defs rule_of_item_def spec_kind.simps)

lemma twitter_card_counters:
  "score (twitter_card_analysis m v) = score v + spec_direct_score TwitterCard (spec_kind TwitterCard m)"
  "passed (twitter_card_analysis m v) = passed v + (if spec_kind TwitterCard m = Passed then 1 else 0)"
  "warnings (twitter_card_analysis m v) = warnings v + (if spec_kind TwitterCard m = Warning then 1 else 0)"
  "errors (twitter_card_analysis m v) = errors v + (if spec_kind TwitterCard m = Error then 1 else 0)"
  by (simp_all add: block_defs spec_kind.simps)

lemma twitter_card_categories:
  "cat_score (socialMedia (categoryScores (twitter_card_analysis m v)))
     = cat_score (socialMedia (categoryScores v)) + spec_category_points TwitterCard (spec_kind TwitterCard m)"
  "maxScore (socialMedia (categoryScores (twitter_card_analysis m v))) = maxScore (socialMedia (categoryScores v))"
  "basicSeo (categoryScores (twitter_card_analysis m v)) = basicSeo (categoryScores v)"
  "technicalSeo (categoryScores (twitter_card_analysis m v)) = technicalSeo (categoryScores v)"
  "contentQuality (categoryScores (twitter_card_analysis m v)) = contentQuality (categoryScores v)"
  by (simp_all add: block_defs spec_kind.simps)

lemma twitter_card_counts_inv:
  "passed v + warnings v + errors v = length (analysis v) \<Longrightarrow>
   passed (twitter_card_analysis m v) + warnings (twitter_card_analysis m v) + errors (twitter_card_analysis m v) = length (analysis (twitter_card_analysis m v))"
  by (cases "spec_kind TwitterCard m") (simp_all add: twitter_card_items twitter_card_counters)

lemma twitter_card_score_inv:
  "score v = sum_list (map direct_score_of_item (analysis v)) \<Longrightarrow>
   score (twitter_card_analysis m v) = sum_list (map direct_score_of_item (analysis (twitter_card_analysis m v)))"
  by (simp add: block_defs rule_of_item_def direct_score_of_item_def)

lemma canonical_items:
  "length (analysis (canonical_analysis m v)) = Suc (length (analysis v))"
  "map rule_of_item (analysis (canonical_analysis m v)) = map rule_of_item (analysis v) @ [Some CanonicalUrl]"
  "map item_type (analysis (canonical_analysis m v)) = map item_type (analysis v) @ [spec_kind CanonicalUrl m]"
  by (simp_all add: block_defs rule_of_item_def spec_kind.simps)

lemma canonical_counters:
  "score (canonical_analysis m v) = score v + spec_direct_score CanonicalUrl (spec_kind CanonicalUrl m)"
  "passed (canonical_analysis m v) = passed v + (if spec_kind CanonicalUrl m = Passed then 1 else 0)"
  "warnings (canonical_analysis m v) = warnings v + (if spec_kind CanonicalUrl m = Warning then 1 else 0)"
  "errors (canonical_analysis m v) = errors v + (if spec_kind CanonicalUrl m = Error then 1 else 0)"
  by (simp_all add: block_defs spec_kind.simps)

lemma canonical_categories:
  "cat_score (technicalSeo (categoryScores (canonical_analysis m v)))
     = cat_score (technicalSeo (categoryScores v)) + spec_category_points CanonicalUrl (spec_kind CanonicalUrl m)"
  "maxScore (technicalSeo (categoryScores (canonical_analysis m v))) = maxScore (technicalSeo (categoryScores v))"
  "basicSeo (categoryScores (canonical_analysis m v)) = basicSeo (categoryScores v)"
  "socialMedia (categoryScores (canonical_analysis m v)) = socialMedia (categoryScores v)"
  "contentQuality (categoryScores (canonical_analysis m v)) = contentQuality (categoryScores v)"
  by (simp_all add: block_defs spec_kind.simps)

lemma canonical_counts_inv:
  "passed v + warnings v + errors v = length (analysis v) \<Longrightarrow>
   passed (canonical_analysis m v) + warnings (canonical_analysis m v) + errors (canonical_analysis m v) = length (analysis (canonical_analysis m v))"
  by (cases "spec_kind CanonicalUrl m") (simp_all add: canonical_items canonical_counters)

lemma canonical_score_inv:
  "score v = sum_list (map direct_score_of_item (analysis v)) \<Longrightarrow>
   score (canonical_analysis m v) = sum_list (map direct_score_of_item (analysis (canonical_analysis m v)))"
  by (simp add: block_defs rule_of_item_def direct_score_of_item_def)

lemma viewport_items:
  "length (analysis (viewport_analysis m v)) = Suc (length (analysis v))"
  "map rule_of_item (analysis (viewport_analysis m v)) = map rule_of_item (analysis v) @ [Some Viewport]"
  "map item_type (analysis (viewport_analysis m v)) = map item_type (analysis v) @ [spec_kind Viewport m]"
  by (simp_all add: block_defs rule_of_item_def spec_kind.simps)

lemma viewport_counters:
  "score (viewport_analysis m v) = score v + spec_direct_score Viewport (spec_kind Viewport m)"
  "passed (viewport_analysis m v) = passed v + (if spec_kind Viewport m = Passed then 1 else 0)"
  "warnings (viewport_analysis m v) = warnings v + (if spec_kind Viewport m = Warning then 1 else 0)"
  "errors (viewport_analysis m v) = errors v + (if spec_kind Viewport m = Error then 1 else 0)"
  by (simp_all add: block_defs spec_kind.simps)

lemma viewport_categories:
  "cat_score (technicalSeo (categoryScores (viewport_analysis m v)))
     = cat_score (technicalSeo (categoryScores v)) + spec_category_points Viewport (spec_kind Viewport m)"
  "maxScore (technicalSeo (categoryScores (viewport_analysis m v))) = maxScore (technicalSeo (categoryScores v))"
  "basicSeo (categoryScores (viewport_analysis m v)) = basicSeo (categoryScores v)"
  "socialMedia (categoryScores (viewport_analysis m v)) = socialMedia (categoryScores v)"
  "contentQuality (categoryScores (viewport_analysis m v)) = contentQuality (categoryScores v)"
  by (simp_all add: block_defs spec_kind.simps)

lemma viewport_counts_inv:
  "passed v + warnings v + errors v = length (analysis v) \<Longrightarrow>
   passed (viewport_analysis m v) + warnings (viewport_analysis m v) + errors (viewport_analysis m v) = length (analysis (viewport_analysis m v))"
  by (cases "spec_kind Viewport m") (simp_all add: viewport_items viewport_counters)

lemma viewport_score_inv:
  "score v = sum_list (map direct_score_of_item (analysis v)) \<Longrightarrow>
   score (viewport_analysis m v) = sum_list (map direct_score_of_item (analysis (viewport_analysis m v)))"
  by (simp add: block_defs rule_of_item_def direct_score_of_item_def)

lemma language_items:
  "length (analysis (language_analysis m v)) = Suc (length (analysis v))"
  "map rule_of_item (analysis (language_analysis m v)) = map rule_of_item (analysis v) @ [Some LanguageDeclaration]"
  "map item_type (analysis (language_analysis m v)) = map item_type (analysis v) @ [spec_kind LanguageDeclaration m]"
  by (simp_all add: block_defs rule_of_item_def spec_kind.simps)

lemma language_counters:
  "score (language_analysis m v) = score v + spec_direct_score LanguageDeclaration (spec_kind LanguageDeclaration m)"
  "passed (language_analysis m v) = passed v + (if spec_kind LanguageDeclaration m = Passed then 1 else 0)"
  "warnings (language_analysis m v) = warnings v + (if spec_kind LanguageDeclaration m = Warning then 1 else 0)"
  "errors (language_analysis m v) = errors v + (if spec_kind LanguageDeclaration m = Error then 1 else 0)"
  by (simp_all add: block_defs spec_kind.simps)

lemma language_categories:
  "cat_score (contentQuality (categoryScores (language_analysis m v)))
     = cat_score (contentQuality (categoryScores v)) + spec_category_points LanguageDeclaration (spec_kind LanguageDeclaration m)"
  "maxScore (contentQuality (categoryScores (language_analysis m v))) = maxScore (contentQuality (categoryScores v))"
  "basicSeo (categoryScores (language_analysis m v)) = basicSeo (categoryScores v)"
  "socialMedia (categoryScores (language_analysis m v)) = socialMedia (categoryScores v)"
  "technicalSeo (categoryScores (language_analysis m v)) = technicalSeo (categoryScores v)"
  by (simp_all add: block_defs spec_kind.simps)

lemma language_counts_inv:
  "passed v + warnings v + errors v = length (analysis v) \<Longrightarrow>
   passed (language_analysis m v) + warnings (language_analysis m v) + errors (language_analysis m v) = length (analysis (language_analysis m v))"
  by (cases "spec_kind LanguageDeclaration m") (simp_all add: language_items language_counters)

lemma language_score_inv:
  "score v = sum_list (map direct_score_of_item (analysis v)) \<Longrightarrow>
   score (language_analysis m v) = sum_list (map direct_score_of_item (analysis (language_analysis m v)))"
  by (simp add: block_defs rule_of_item_def direct_score_of_item_def)

lemma structured_data_items:
  "length (analysis (structured_data_analysis m v)) = Suc (length (analysis v))"
  "map rule_of_item (analysis (structured_data_analysis m v)) = map rule_of_item (analysis v) @ [Some StructuredData]"
  "map item_type (analysis (structured_data_analysis m v)) = map item_type (analysis v) @ [spec_kind StructuredData m]"
  by (simp_all add: block_defs rule_of_item_def spec_kind.simps)

lemma structured_data_counters:
  "score (structured_data_analysis m v) = score v + spec_direct_score StructuredData (spec_kind StructuredData m)"
  "passed (structured_data_analysis m v) = passed v + (if spec_kind StructuredData m = Passed then 1 else 0)"
  "warnings (structured_data_analysis m v) = warnings v + (if spec_kind StructuredData m = Warning then 1 else 0)"
  "errors (structured_data_analysis m v) = errors v + (if spec_kind StructuredData m = Error then 1 else 0)"
  by (simp_all add: block_defs spec_kind.simps)

lemma structured_data_categories:
  "cat_score (technicalSeo (categoryScores (structured_data_analysis m v)))
     = cat_score (technicalSeo (categoryScores v)) + spec_category_points StructuredData (spec_kind StructuredData m)"
  "maxScore (technicalSeo (categoryScores (structured_data_analysis m v))) = maxScore (technicalSeo (categoryScores v))"
  "basicSeo (categoryScores (structured_data_analysis m v)) = basicSeo (categoryScores v)"
  "socialMedia (categoryScores (structured_data_analysis m v)) = socialMedia (categoryScores v)"
  "contentQuality (categoryScores (structured_data_analysis m v)) = contentQuality (categoryScores v)"
  by (simp_all add: block_defs spec_kind.simps)

lemma structured_data_counts_inv:
  "passed v + warnings v + errors v = length (analysis v) \<Longrightarrow>
   passed (structured_data_analysis m v) + warnings (structured_data_analysis m v) + errors (structured_data_analysis m v) = length (analysis (structured_data_analysis m v))"
  by (cases "spec_kind StructuredData m") (simp_all add: structured_data_items structured_data_counters)

lemma structured_data_score_inv:
  "score v = sum_list (map direct_score_of_item (analysis v)) \<Longrightarrow>
   score (structured_data_analysis m v) = sum_list (map direct_score_of_item (analysis (structured_data_analysis m v)))"
  by (simp add: block_defs rule_of_item_def direct_score_of_item_def)

lemma title_pushes_one:
  "\<exists>it. analysis (title_analysis m v) = analysis v @ [it]"
  by (simp add: block_defs)

lemma description_pushes_one:
  "\<exists>it. analysis (description_analysis m v) = analysis v @ [it]"
  by (simp add: block_defs)

lemma open_graph_pushes_one:
  "\<exists>it. analysis (open_graph_analysis m v) = analysis v @ [it]"
  by (simp add: block_defs)

lemma twitter_card_pushes_one:
  "\<exists>it. analysis (twitter_card_analysis m v) = analysis v @ [it]"
  by (simp add: block_defs)

lemma canonical_pushes_one:
  "\<exists>it. analysis (canonical_analysis m v) = analysis v @ [it]"
  by (simp add: block_defs)

lemma viewport_pushes_one:
  "\<exists>it. analysis (viewport_analysis m v) = analysis v @ [it]"
  by (simp add: block_defs)

lemma language_pushes_one:
  "\<exists>it. analysis (language_analysis m v) = analysis v @ [it]"
  by (simp add: block_defs)

lemma structured_data_pushes_one:
  "\<exists>it. analysis (structured_data_analysis m v) = analysis v @ [it]"
  by (simp add: block_defs)

section \<open>The whole pass\<close>

lemmas items_simps =
  title_items description_items open_graph_items twitter_card_items
  canonical_items viewport_items language_items structured_data_items

lemmas counters_simps =
  title_counters description_counters open_graph_counters twitter_card_counters
  canonical_counters viewport_counters language_counters structured_data_counters

lemmas categories_simps =
  title_categories description_categories open_graph_categories twitter_card_categories
  canonical_categories viewport_categories language_categories structured_data_categories

text \<open>The kinds and the rules of the items, in the order they were pushed.\<close>

lemma run_blocks_kinds:
  "map item_type (analysis (run_blocks m)) = map (\<lambda>r. spec_kind r m) rule_order"
  by (simp add: run_blocks_def Let_def items_simps vars_init_def rule_order_def)

lemma run_blocks_rules:
  "map rule_of_item (analysis (run_blocks m)) = map Some rule_order"
  by (simp add: run_blocks_def Let_def items_simps vars_init_def rule_order_def)

lemma run_blocks_length: "length (analysis (run_blocks m)) = 8"
  by (simp add: run_blocks_def Let_def items_simps vars_init_def)

text \<open>The two invariants, carried from the initial values through the eight blocks.\<close>

lemma run_blocks_counts:
  "passed (run_blocks m) + warnings (run_blocks m) + errors (run_blocks m)
     = length (analysis (run_blocks m))"
  unfolding run_blocks_def Let_def
  by (intro title_counts_inv description_counts_inv open_graph_counts_inv
        twitter_card_counts_inv canonical_counts_inv viewport_counts_inv
        language_counts_inv structured_data_counts_inv)
     (simp add: vars_init_def)

lemma run_blocks_score:
  "score (run_blocks m) = sum_list (map direct_score_of_item (analysis (run_blocks m)))"
  unfolding run_blocks_def Let_def
  by (intro title_score_inv description_score_inv open_graph_score_inv
        twitter_card_score_inv canonical_score_inv viewport_score_inv
        language_score_inv structured_data_score_inv)
     (simp add: vars_init_def)

text \<open>The counters as sums over the rules.\<close>

lemma run_blocks_counters:
  "score (run_blocks m) = (\<Sum>r\<leftarrow>rule_order. spec_direct_score r (spec_kind r m))"
  "passed (run_blocks m) = (\<Sum>r\<leftarrow>rule_order. if spec_kind r m = Passed then 1 else 0)"
  "warnings (run_blocks m) = (\<Sum>r\<leftarrow>rule_order. if spec_kind r m = Warning then 1 else 0)"
  "errors (run_blocks m) = (\<Sum>r\<leftarrow>rule_order. if spec_kind r m = Error then 1 else 0)"
  by (simp_all only: run_blocks_def Let_def counters_simps vars_init_def rule_order_def
        vars.simps list.map sum_list.Cons sum_list.Nil add_0 add_0_right add.assoc)

text \<open>The category entries after the pass.\<close>

lemma run_blocks_categories:
  "cat_score (basicSeo (categoryScores (run_blocks m)))
     = spec_category_points TitleLength (spec_kind TitleLength m)
       + spec_category_points DescriptionLength (spec_kind DescriptionLength m)"
  "cat_score (socialMedia (categoryScores (run_blocks m)))
     = spec_category_points OpenGraph (spec_kind OpenGraph m)
       + spec_category_points TwitterCard (spec_kind TwitterCard m)"
  "cat_score (technicalSeo (categoryScores (run_blocks m)))
     = spec_category_points CanonicalUrl (spec_kind CanonicalUrl m)
       + spec_category_points Viewport (spec_kind Viewport m)
       + spec_category_points StructuredData (spec_kind StructuredData m)"
  "cat_score (contentQuality (categoryScores (run_blocks m)))
     = spec_category_points LanguageDeclaration (spec_kind LanguageDeclaration m)"
  by (simp_all add: run_blocks_def Let_def categories_simps vars_init_def
        categoryScores_init_def)

lemma run_blocks_maxScore:
  "maxScore (basicSeo (categoryScores (run_blocks m))) = 30"
  "maxScore (socialMedia (categoryScores (run_blocks m))) = 25"
  "maxScore (technicalSeo (categoryScores (run_blocks m))) = 30"
  "maxScore (contentQuality (categoryScores (run_blocks m))) = 15"
  by (simp_all add: run_blocks_def Let_def categories_simps vars_init_def
        categoryScores_init_def)

lemma spec_category_points_bound:
  "spec_category_points TitleLength k \<le> 15"
  "spec_category_points DescriptionLength k \<le> 15"
  "spec_category_points OpenGraph k \<le> 15"
  "spec_category_points TwitterCard k \<le> 10"
  "spec_category_points CanonicalUrl k \<le> 10"
  "spec_category_points Viewport k \<le> 10"
  "spec_category_points StructuredData k \<le> 10"
  "spec_category_points LanguageDeclaration k \<le> 5"
  by (cases k; simp)+

text \<open>No block lowers a score: the differences of \<open>direct_points\<close> and \<open>category_points\<close> are exact.\<close>

lemma block_points:
  "direct_points title_analysis m v = spec_direct_score TitleLength (spec_kind TitleLength m)"
  "direct_points description_analysis m v
     = spec_direct_score DescriptionLength (spec_kind DescriptionLength m)"
  "direct_points open_graph_analysis m v = spec_direct_score OpenGraph (spec_kind OpenGraph m)"
  "direct_points twitter_card_analysis m v
     = spec_direct_score TwitterCard (spec_kind TwitterCard m)"
  "direct_points canonical_analysis m v
     = spec_direct_score CanonicalUrl (spec_kind CanonicalUrl m)"
  "direct_points viewport_analysis m v = spec_direct_score Viewport (spec_kind Viewport m)"
  "direct_points language_analysis m v
     = spec_direct_score LanguageDeclaration (spec_kind LanguageDeclaration m)"
  "direct_points structured_data_analysis m v
     = spec_direct_score StructuredData (spec_kind StructuredData m)"
  "category_points title_analysis m v
     = spec_category_points TitleLength (spec_kind TitleLength m)"
  "category_points description_analysis m v
     = spec_category_points DescriptionLength (spec_kind DescriptionLength m)"
  "category_points open_graph_analysis m v
     = spec_category_points OpenGraph (spec_kind OpenGraph m)"
  "category_points twitter_card_analysis m v
     = spec_category_points TwitterCard (spec_kind TwitterCard m)"
  "category_points canonical_analysis m v
     = spec_category_points CanonicalUrl (spec_kind CanonicalUrl m)"
  "category_points viewport_analysis m v
     = spec_category_points Viewport (spec_kind Viewport m)"
  "category_points language_analysis m v
     = spec_category_points LanguageDeclaration (spec_kind LanguageDeclaration m)"
  "category_points structured_data_analysis m v
     = spec_category_points StructuredData (spec_kind StructuredData m)"
  by (simp_all add: direct_points_def category_points_def category_total_def
        counters_simps categories_simps)

section \<open>The claims\<close>

subsection \<open>The scenarios\<close>

text \<open>
  C1, as the code has it.  For the record whose fields are all empty, with no structured
  data, \<open>analyzeSEO\<close> returns score 0 and no passed finding, as the specification says,
  but three errors (title, description and viewport) and five warnings: a missing
  description is an error of its own, as a missing title is.
\<close>

theorem empty_tags_report:
  "report_score (analyzeSEO tags_empty url) = 0
   \<and> report_errors (analyzeSEO tags_empty url) = 3
   \<and> report_warnings (analyzeSEO tags_empty url) = 5
   \<and> report_passed (analyzeSEO tags_empty url) = 0
   \<and> map item_type (report_items (analyzeSEO tags_empty url))
       = [Error, Error, Warning, Warning, Warning, Error, Warning, Warning]"
  by (simp add: analyzeSEO_def Let_def run_blocks_counters run_blocks_kinds rule_order_def
        spec_kind.simps tags_empty_def)

text \<open>
  C1 as the specification words it (two errors, six warnings) does not hold of the empty
  record.
\<close>

theorem empty_tags_counterexample:
  "\<not> (report_score (analyzeSEO tags_empty ''https://e.com'') = 0
      \<and> report_errors (analyzeSEO tags_empty ''https://e.com'') = 2
      \<and> report_warnings (analyzeSEO tags_empty ''https://e.com'') = 6
      \<and> report_passed (analyzeSEO tags_empty ''https://e.com'') = 0)"
  by (simp add: analyzeSEO_def Let_def run_blocks_counters rule_order_def
        spec_kind.simps tags_empty_def)

text \<open>
  C2, as the code has it.  With only \<open>viewport\<close> set, to \<open>''w''\<close>, the score is 5, as the
  specification says, and two errors remain: the title and the description.
\<close>

theorem viewport_only_report:
  "report_errors (analyzeSEO tags_viewport_only url) = 2
   \<and> report_score (analyzeSEO tags_viewport_only url) = 5
   \<and> map item_type (report_items (analyzeSEO tags_viewport_only url))
       = [Error, Error, Warning, Warning, Warning, Passed, Warning, Warning]"
  by (simp add: analyzeSEO_def Let_def run_blocks_counters run_blocks_kinds rule_order_def
        spec_kind.simps tags_viewport_only_def tags_empty_def)

text \<open>C2 as the specification words it (one error) does not hold of that record.\<close>

theorem viewport_only_counterexample:
  "\<not> (report_errors (analyzeSEO tags_viewport_only ''https://e.com'') = 1
      \<and> report_score (analyzeSEO tags_viewport_only ''https://e.com'') = 5)"
  by (simp add: analyzeSEO_def Let_def run_blocks_counters rule_order_def
        spec_kind.simps tags_viewport_only_def tags_empty_def)

text \<open>
  C8.  A record with a title of 45 characters, a description of 140, non-empty
  \<open>ogTitle\<close>, \<open>ogDescription\<close>, \<open>canonical\<close>, \<open>viewport\<close>, \<open>language\<close> and \<open>twitterCard\<close>, and
  one structured data block gets eight passed findings, score 75, and the counts 8, 0
  and 0.  The other fields of the record do not matter.
\<close>

theorem all_present_report:
  assumes "length (title m) = 45" and "length (description m) = 140"
    and "ogTitle m \<noteq> []" and "ogDescription m \<noteq> []" and "canonical m \<noteq> []"
    and "viewport m \<noteq> []" and "language m \<noteq> []" and "twitterCard m \<noteq> []"
    and "length (structuredData m) = 1"
  shows "map item_type (report_items (analyzeSEO m url)) = replicate 8 Passed
    \<and> report_score (analyzeSEO m url) = 75
    \<and> report_passed (analyzeSEO m url) = 8
    \<and> report_warnings (analyzeSEO m url) = 0
    \<and> report_errors (analyzeSEO m url) = 0"
proof -
  from assms have "title m \<noteq> []" and "description m \<noteq> []" and "structuredData m \<noteq> []"
    by auto
  with assms have "spec_kind r m = Passed" for r
    by (cases r) (simp_all add: spec_kind.simps)
  then show ?thesis
    by (simp add: analyzeSEO_def Let_def run_blocks_counters run_blocks_kinds rule_order_def
          eval_nat_numeral)
qed

text \<open>The scenario of the specification satisfies the hypotheses of C8.\<close>

theorem all_present_report_witness:
  "length (title tags_all_present) = 45 \<and> length (description tags_all_present) = 140
   \<and> ogTitle tags_all_present = ''x'' \<and> ogDescription tags_all_present = ''y''
   \<and> canonical tags_all_present = ''https://e.com''
   \<and> viewport tags_all_present = ''width=device-width''
   \<and> language tags_all_present = ''en'' \<and> twitterCard tags_all_present = ''summary''
   \<and> structuredData tags_all_present = [JObject []]
   \<and> map item_type (report_items (analyzeSEO tags_all_present ''https://e.com''))
       = [Passed, Passed, Passed, Passed, Passed, Passed, Passed, Passed]
   \<and> report_score (analyzeSEO tags_all_present ''https://e.com'') = 75
   \<and> report_passed (analyzeSEO tags_all_present ''https://e.com'') = 8
   \<and> report_warnings (analyzeSEO tags_all_present ''https://e.com'') = 0
   \<and> report_errors (analyzeSEO tags_all_present ''https://e.com'') = 0"
  using all_present_report [of tags_all_present "''https://e.com''"]
  by (simp add: tags_all_present_def tags_empty_def eval_nat_numeral)

subsection \<open>The two point tables\<close>

text \<open>
  C3, as the code has it.  The points a block adds to the overall score and the points it
  adds to its category differ for three rules, and only when the finding is passed: Open
  Graph (10 against 15), Twitter Card (5 against 10) and Viewport (5 against 10).  For the
  title, description, canonical, language and structured data rules the two are equal in
  every outcome.
\<close>

theorem direct_and_category_points:
  "direct_points title_analysis m v = category_points title_analysis m v
   \<and> direct_points description_analysis m v = category_points description_analysis m v
   \<and> direct_points canonical_analysis m v = category_points canonical_analysis m v
   \<and> direct_points language_analysis m v = category_points language_analysis m v
   \<and> direct_points structured_data_analysis m v
       = category_points structured_data_analysis m v
   \<and> direct_points open_graph_analysis m v
       = (if ogTitle m \<noteq> [] \<and> ogDescription m \<noteq> [] then 10 else 0)
   \<and> category_points open_graph_analysis m v
       = (if ogTitle m \<noteq> [] \<and> ogDescription m \<noteq> [] then 15 else 0)
   \<and> direct_points twitter_card_analysis m v = (if twitterCard m \<noteq> [] then 5 else 0)
   \<and> category_points twitter_card_analysis m v = (if twitterCard m \<noteq> [] then 10 else 0)
   \<and> direct_points viewport_analysis m v = (if viewport m \<noteq> [] then 5 else 0)
   \<and> category_points viewport_analysis m v = (if viewport m \<noteq> [] then 10 else 0)"
proof -
  have "spec_direct_score TitleLength k = spec_category_points TitleLength k"
    and "spec_direct_score DescriptionLength k = spec_category_points DescriptionLength k"
    and "spec_direct_score CanonicalUrl k = spec_category_points CanonicalUrl k"
    and "spec_direct_score LanguageDeclaration k = spec_category_points LanguageDeclaration k"
    and "spec_direct_score StructuredData k = spec_category_points StructuredData k"
    for k
    by (cases k; simp)+
  then show ?thesis
    by (simp add: block_points) (simp add: spec_kind.simps)
qed

text \<open>
  C3 as the specification words it, with exactly two rules differing, fails at the
  viewport rule: started from the initial values on a record whose viewport is \<open>''w''\<close>,
  the block adds 5 to the overall score and 10 to its category.
\<close>

theorem viewport_points_counterexample:
  "\<not> (direct_points viewport_analysis tags_viewport_only vars_init
        = category_points viewport_analysis tags_viewport_only vars_init)"
  by (simp add: block_points spec_kind.simps tags_viewport_only_def tags_empty_def)

subsection \<open>The overall score\<close>

text \<open>
  C4.  The score of the report is the smaller of 100 and the sum, over the items of the
  report, of the direct score the table gives for the item's rule and kind; so it never
  exceeds 100.
\<close>

theorem overall_score_clamped_sum:
  "report_score (analyzeSEO m url)
     = min 100 (sum_list (map direct_score_of_item (report_items (analyzeSEO m url))))
   \<and> report_score (analyzeSEO m url) \<le> 100"
  using run_blocks_score [of m] by (simp add: analyzeSEO_def Let_def)

subsection \<open>The findings\<close>

text \<open>
  C5.  The report has exactly eight items, the item at each position belonging to the
  rule of that position, from the title rule to the structured data rule; and each block,
  from whatever values it starts, pushes exactly one item.
\<close>

theorem eight_findings_in_rule_order:
  "length (report_items (analyzeSEO m url)) = 8
   \<and> map rule_of_item (report_items (analyzeSEO m url))
       = [Some TitleLength, Some DescriptionLength, Some OpenGraph, Some TwitterCard,
          Some CanonicalUrl, Some Viewport, Some LanguageDeclaration, Some StructuredData]
   \<and> (\<exists>it. analysis (title_analysis m v) = analysis v @ [it])
   \<and> (\<exists>it. analysis (description_analysis m v) = analysis v @ [it])
   \<and> (\<exists>it. analysis (open_graph_analysis m v) = analysis v @ [it])
   \<and> (\<exists>it. analysis (twitter_card_analysis m v) = analysis v @ [it])
   \<and> (\<exists>it. analysis (canonical_analysis m v) = analysis v @ [it])
   \<and> (\<exists>it. analysis (viewport_analysis m v) = analysis v @ [it])
   \<and> (\<exists>it. analysis (language_analysis m v) = analysis v @ [it])
   \<and> (\<exists>it. analysis (structured_data_analysis m v) = analysis v @ [it])"
proof -
  have "length (report_items (analyzeSEO m url)) = 8"
    by (simp add: analyzeSEO_def Let_def run_blocks_length)
  moreover have "map rule_of_item (report_items (analyzeSEO m url))
       = [Some TitleLength, Some DescriptionLength, Some OpenGraph, Some TwitterCard,
          Some CanonicalUrl, Some Viewport, Some LanguageDeclaration, Some StructuredData]"
    by (simp add: analyzeSEO_def Let_def run_blocks_rules rule_order_def)
  ultimately show ?thesis
    using title_pushes_one [of m v] description_pushes_one [of m v]
      open_graph_pushes_one [of m v] twitter_card_pushes_one [of m v]
      canonical_pushes_one [of m v] viewport_pushes_one [of m v]
      language_pushes_one [of m v] structured_data_pushes_one [of m v]
    by blast
qed

text \<open>
  C6.  The first item is the title rule's and the second the description rule's.  The
  title's item is passed exactly when the title is not empty and its length lies in
  30..60, bounds included; it is an error exactly when the title is empty, and a warning
  otherwise.  The same holds of the description with the bounds 120 and 160.
\<close>

theorem length_rules_kinds:
  "rule_of_item (report_items (analyzeSEO m url) ! 0) = Some TitleLength
   \<and> (item_type (report_items (analyzeSEO m url) ! 0) = Passed)
       = (title m \<noteq> [] \<and> 30 \<le> length (title m) \<and> length (title m) \<le> 60)
   \<and> (item_type (report_items (analyzeSEO m url) ! 0) = Error) = (title m = [])
   \<and> (item_type (report_items (analyzeSEO m url) ! 0) = Warning)
       = (title m \<noteq> [] \<and> (length (title m) < 30 \<or> 60 < length (title m)))
   \<and> rule_of_item (report_items (analyzeSEO m url) ! 1) = Some DescriptionLength
   \<and> (item_type (report_items (analyzeSEO m url) ! 1) = Passed)
       = (description m \<noteq> [] \<and> 120 \<le> length (description m)
          \<and> length (description m) \<le> 160)
   \<and> (item_type (report_items (analyzeSEO m url) ! 1) = Error) = (description m = [])
   \<and> (item_type (report_items (analyzeSEO m url) ! 1) = Warning)
       = (description m \<noteq> []
          \<and> (length (description m) < 120 \<or> 160 < length (description m)))"
proof -
  let ?xs = "report_items (analyzeSEO m url)"
  have len: "length ?xs = 8"
    by (simp add: analyzeSEO_def Let_def run_blocks_length)
  have kinds: "map item_type ?xs = map (\<lambda>r. spec_kind r m) rule_order"
    by (simp add: analyzeSEO_def Let_def run_blocks_kinds)
  have rules: "map rule_of_item ?xs = map Some rule_order"
    by (simp add: analyzeSEO_def Let_def run_blocks_rules)
  have "item_type (?xs ! 0) = map item_type ?xs ! 0"
    and "item_type (?xs ! 1) = map item_type ?xs ! 1"
    and "rule_of_item (?xs ! 0) = map rule_of_item ?xs ! 0"
    and "rule_of_item (?xs ! 1) = map rule_of_item ?xs ! 1"
    using len by simp_all
  then have "item_type (?xs ! 0) = spec_kind TitleLength m"
    and "item_type (?xs ! 1) = spec_kind DescriptionLength m"
    and "rule_of_item (?xs ! 0) = Some TitleLength"
    and "rule_of_item (?xs ! 1) = Some DescriptionLength"
    by (simp_all add: kinds rules rule_order_def)
  then show ?thesis
    by (auto simp add: spec_kind.simps)
qed

text \<open>
  The bounds of C6 on records that are empty but for a title, or a description, of a
  given length: 30 and 60 pass, 29 and 61 warn, 0 is an error; 120 and 160 pass, 119 and
  161 warn, 0 is an error.
\<close>

theorem length_rules_kinds_witness:
  "item_type (report_items (analyzeSEO (tags_title_of_length 30) ''https://e.com'') ! 0) = Passed
   \<and> item_type (report_items (analyzeSEO (tags_title_of_length 60) ''https://e.com'') ! 0) = Passed
   \<and> item_type (report_items (analyzeSEO (tags_title_of_length 29) ''https://e.com'') ! 0) = Warning
   \<and> item_type (report_items (analyzeSEO (tags_title_of_length 61) ''https://e.com'') ! 0) = Warning
   \<and> item_type (report_items (analyzeSEO (tags_title_of_length 0) ''https://e.com'') ! 0) = Error
   \<and> item_type (report_items (analyzeSEO (tags_description_of_length 120) ''https://e.com'') ! 1)
       = Passed
   \<and> item_type (report_items (analyzeSEO (tags_description_of_length 160) ''https://e.com'') ! 1)
       = Passed
   \<and> item_type (report_items (analyzeSEO (tags_description_of_length 119) ''https://e.com'') ! 1)
       = Warning
   \<and> item_type (report_items (analyzeSEO (tags_description_of_length 161) ''https://e.com'') ! 1)
       = Warning
   \<and> item_type (report_items (analyzeSEO (tags_description_of_length 0) ''https://e.com'') ! 1)
       = Error"
  using length_rules_kinds [of "tags_title_of_length 30" "''https://e.com''"]
    length_rules_kinds [of "tags_title_of_length 60" "''https://e.com''"]
    length_rules_kinds [of "tags_title_of_length 29" "''https://e.com''"]
    length_rules_kinds [of "tags_title_of_length 61" "''https://e.com''"]
    length_rules_kinds [of "tags_title_of_length 0" "''https://e.com''"]
    length_rules_kinds [of "tags_description_of_length 120" "''https://e.com''"]
    length_rules_kinds [of "tags_description_of_length 160" "''https://e.com''"]
    length_rules_kinds [of "tags_description_of_length 119" "''https://e.com''"]
    length_rules_kinds [of "tags_description_of_length 161" "''https://e.com''"]
    length_rules_kinds [of "tags_description_of_length 0" "''https://e.com''"]
  by (simp add: tags_title_of_length_def tags_description_of_length_def tags_empty_def)

text \<open>
  C7.  The three counts of the report add up to the number of its items.
\<close>

theorem counts_add_up:
  "report_passed (analyzeSEO m url) + report_warnings (analyzeSEO m url)
     + report_errors (analyzeSEO m url)
   = length (report_items (analyzeSEO m url))"
  using run_blocks_counts [of m] by (simp add: analyzeSEO_def Let_def)

subsection \<open>The categories\<close>

text \<open>
  C9.  In the report every category's score is at most its maximum, and the four maxima
  are 30, 25, 30 and 15, which add up to 100.
\<close>

theorem category_scores_bounded:
  "cat_score (basicSeo (report_categoryScores (analyzeSEO m url)))
     \<le> maxScore (basicSeo (report_categoryScores (analyzeSEO m url)))
   \<and> cat_score (socialMedia (report_categoryScores (analyzeSEO m url)))
     \<le> maxScore (socialMedia (report_categoryScores (analyzeSEO m url)))
   \<and> cat_score (technicalSeo (report_categoryScores (analyzeSEO m url)))
     \<le> maxScore (technicalSeo (report_categoryScores (analyzeSEO m url)))
   \<and> cat_score (contentQuality (report_categoryScores (analyzeSEO m url)))
     \<le> maxScore (contentQuality (report_categoryScores (analyzeSEO m url)))
   \<and> maxScore (basicSeo (report_categoryScores (analyzeSEO m url))) = 30
   \<and> maxScore (socialMedia (report_categoryScores (analyzeSEO m url))) = 25
   \<and> maxScore (technicalSeo (report_categoryScores (analyzeSEO m url))) = 30
   \<and> maxScore (contentQuality (report_categoryScores (analyzeSEO m url))) = 15
   \<and> maxScore (basicSeo (report_categoryScores (analyzeSEO m url)))
     + maxScore (socialMedia (report_categoryScores (analyzeSEO m url)))
     + maxScore (technicalSeo (report_categoryScores (analyzeSEO m url)))
     + maxScore (contentQuality (report_categoryScores (analyzeSEO m url))) = 100"
proof -
  have cs: "report_categoryScores (analyzeSEO m url) = categoryScores (run_blocks m)"
    by (simp add: analyzeSEO_def Let_def)
  have "cat_score (basicSeo (categoryScores (run_blocks m))) \<le> 30"
    using spec_category_points_bound(1) [of "spec_kind TitleLength m"]
      spec_category_points_bound(2) [of "spec_kind DescriptionLength m"]
    by (simp add: run_blocks_categories)
  moreover have "cat_score (socialMedia (categoryScores (run_blocks m))) \<le> 25"
    using spec_category_points_bound(3) [of "spec_kind OpenGraph m"]
      spec_category_points_bound(4) [of "spec_kind TwitterCard m"]
    by (simp add: run_blocks_categories)
  moreover have "cat_score (technicalSeo (categoryScores (run_blocks m))) \<le> 30"
    using spec_category_points_bound(5) [of "spec_kind CanonicalUrl m"]
      spec_category_points_bound(6) [of "spec_kind Viewport m"]
      spec_category_points_bound(7) [of "spec_kind StructuredData m"]
    by (simp add: run_blocks_categories)
  moreover have "cat_score (contentQuality (categoryScores (run_blocks m))) \<le> 15"
    using spec_category_points_bound(8) [of "spec_kind LanguageDeclaration m"]
    by (simp add: run_blocks_categories)
  ultimately show ?thesis
    by (simp add: cs run_blocks_maxScore)
qed

end
